theory Spec2Isabelle
  imports Main "HOL-Library.Word"
begin

unbundle bit_operations_syntax

section \<open>Data model\<close>

type_synonym byte = "8 word"
type_synonym uint64 = "64 word"

text \<open>Go's \<open>int64\<close>: a 64-bit word read in two's complement with \<open>sint\<close>.\<close>

type_synonym int64 = "64 word"

text \<open>
  \<open>stypes.Status\<close> of the sandbox library is an integer type with named constants. The
  constants that \<open>convertStatus\<close> names are constructors; \<open>stypes_StatusOther n\<close> stands
  for every other value of the type (invalid, runner error, anything unnamed).
\<close>

datatype raw_status =
    stypes_StatusNormal
  | stypes_StatusSignalled
  | stypes_StatusNonzeroExitStatus
  | stypes_StatusMemoryLimitExceeded
  | stypes_StatusTimeLimitExceeded
  | stypes_StatusOutputLimitExceeded
  | stypes_StatusDisallowedSyscall
  | stypes_StatusOther nat

text \<open>
  Modelled from the spec: \<open>types.Status\<close> (package \<open>types\<close> of this repository) is not
  among the sources. These are the eight result statuses of the repository's interface
  description (\<open>enum Status\<close>), under the names \<open>run.go\<close> uses for them.
\<close>

datatype status =
    types_StatusAccepted
  | types_StatusMemoryLimitExceeded
  | types_StatusTimeLimitExceeded
  | types_StatusOutputLimitExceeded
  | types_StatusFileError
  | types_StatusRuntimeError
  | types_StatusDangerousSyscall
  | types_StatusInternalError

text \<open>
  A Go \<open>error\<close> value, as far as the code looks at it: its dynamic type is either
  \<open>stypes.Status\<close> (the type switch of \<open>runOne\<close>) or something else, of which only the
  message matters.
\<close>

datatype error = Status_error raw_status | Plain_error string

text \<open>
  The \<open>Error()\<close> method. The message of a status is the sandbox library's and is a
  parameter \<open>sname\<close>.
\<close>

fun Error_of :: "(raw_status \<Rightarrow> string) \<Rightarrow> error \<Rightarrow> string" where
  "Error_of sname (Status_error s) = sname s"
| "Error_of sname (Plain_error msg) = msg"

section \<open>\<open>convertStatus\<close> (run.go)\<close>

fun convertStatus :: "raw_status \<Rightarrow> status" where
  "convertStatus stypes_StatusNormal = types_StatusAccepted"
| "convertStatus stypes_StatusSignalled = types_StatusRuntimeError"
| "convertStatus stypes_StatusNonzeroExitStatus = types_StatusRuntimeError"
| "convertStatus stypes_StatusMemoryLimitExceeded = types_StatusMemoryLimitExceeded"
| "convertStatus stypes_StatusTimeLimitExceeded = types_StatusTimeLimitExceeded"
| "convertStatus stypes_StatusOutputLimitExceeded = types_StatusOutputLimitExceeded"
| "convertStatus stypes_StatusDisallowedSyscall = types_StatusDangerousSyscall"
| "convertStatus (stypes_StatusOther n) = types_StatusInternalError"


section \<open>Streams, files and formatting\<close>

text \<open>
  An \<open>io.Reader\<close> as the code consumes it: the bytes it yields, followed by \<open>io.EOF\<close>
  (\<open>None\<close>) or by an error.
\<close>

record reader =
  rd_bytes :: "byte list"
  rd_err :: "error option"

text \<open>
  \<open>io.LimitReader(r, n)\<close> read to its end: once \<open>n\<close> bytes are out (at once when
  \<open>n \<le> 0\<close>) it reports \<open>io.EOF\<close> without asking \<open>r\<close> again.
\<close>

definition LimitReader :: "reader \<Rightarrow> int \<Rightarrow> reader" where
  "LimitReader r n =
     (if n \<le> int (length (rd_bytes r))
      then \<lparr>rd_bytes = take (nat n) (rd_bytes r), rd_err = None\<rparr>
      else r)"

text \<open>
  A container file opened for writing: \<open>wr_fail = Some (k, e)\<close> when it accepts \<open>k\<close> bytes
  and then fails with \<open>e\<close>.
\<close>

record writer =
  wr_fail :: "(nat \<times> error) option"

text \<open>\<open>io.Copy(dst, src)\<close>: the bytes that reached \<open>dst\<close>, and the error.\<close>

definition io_Copy :: "writer \<Rightarrow> reader \<Rightarrow> byte list \<times> error option" where
  "io_Copy dst src =
     (case wr_fail dst of
        None \<Rightarrow> (rd_bytes src, rd_err src)
      | Some (k, e) \<Rightarrow>
          if k < length (rd_bytes src) then (take k (rd_bytes src), Some e)
          else (rd_bytes src, rd_err src))"

text \<open>\<open>file.File\<close>, the host side of a copy-in: a name and what \<open>Open()\<close> returns.\<close>

record file_File =
  file_Name :: string
  file_Open :: "error + reader"

text \<open>A container file opened read-only: what \<open>Stat()\<close> and reading it give.\<close>

record os_File =
  Stat_err :: "error option"
  Stat_Mode :: "32 word"
  Stat_Size :: int64
  contents :: reader

text \<open>The file-type bits of \<open>os.FileMode\<close>.\<close>

definition os_ModeDir :: "32 word" where "os_ModeDir = push_bit 31 1"
definition os_ModeSymlink :: "32 word" where "os_ModeSymlink = push_bit 27 1"
definition os_ModeDevice :: "32 word" where "os_ModeDevice = push_bit 26 1"
definition os_ModeNamedPipe :: "32 word" where "os_ModeNamedPipe = push_bit 25 1"
definition os_ModeSocket :: "32 word" where "os_ModeSocket = push_bit 24 1"
definition os_ModeCharDevice :: "32 word" where "os_ModeCharDevice = push_bit 21 1"
definition os_ModeIrregular :: "32 word" where "os_ModeIrregular = push_bit 19 1"

definition os_ModeType :: "32 word" where
  "os_ModeType = os_ModeDir OR os_ModeSymlink OR os_ModeNamedPipe OR os_ModeSocket
                 OR os_ModeDevice OR os_ModeCharDevice OR os_ModeIrregular"

text \<open>The verb \<open>%d\<close> of \<open>fmt\<close>.\<close>

definition digit :: "nat \<Rightarrow> char" where
  "digit d = ''0123456789'' ! (d mod 10)"

function decimal :: "nat \<Rightarrow> string" where
  "decimal n = (if n < 10 then [digit n] else decimal (n div 10) @ [digit n])"
  by pat_completeness auto
termination
  by (relation "measure id") auto

declare decimal.simps [simp del]

definition fmt_d :: "int \<Rightarrow> string" where
  "fmt_d i = (if i < 0 then CHR ''-'' # decimal (nat (- i)) else decimal (nat i))"

section \<open>Commands, results and the sandbox\<close>

text \<open>
  \<open>Cmd\<close> with the fields that \<open>runOne\<close>, \<open>copyIn\<close> and \<open>copyOutAndCollect\<close> read.
  \<open>CopyIn\<close> is the map in the order the \<open>range\<close> loop visits it. \<open>Waiter\<close> is the value
  the caller's waiter function returns in this run. The descriptors handed to the child
  (\<open>Files\<close>, \<open>fds\<close>) are only closed by this code and are left out.
\<close>

record Cmd =
  Args :: "string list"
  Env :: "string list"
  MemoryLimit :: uint64
  PidLimit :: uint64
  CopyIn :: "(string \<times> file_File) list"
  CopyOut :: "string list"
  CopyOutMax :: uint64
  CopyOutDir :: string
  Waiter :: bool

text \<open>The raw result that arrives on the channel of \<open>Execve\<close>.\<close>

record RunnerResult =
  rt_Status :: raw_status
  rt_Error :: string
  rt_Time :: int64
  rt_Memory :: uint64

record Result =
  Status :: status
  Error :: string
  Time :: int64
  Memory :: uint64
  Files :: "string \<rightharpoonup> byte list"

text \<open>
  A pipe buffer of the sandbox library once its \<open>Done\<close> channel is closed: the bytes it
  holds and its limit \<open>Max\<close> (an \<open>int64\<close>, only compared).
\<close>

record pipe_Buffer =
  buff_Buffer :: "byte list"
  buff_Max :: int

record pipeCollector =
  ptc_buff :: pipe_Buffer
  ptc_name :: string

datatype open_flag = O_RDONLY | O_RDWR | O_CREATE | O_TRUNC

record OpenCmd =
  Path :: string
  Flag :: "open_flag set"
  Perm :: nat

text \<open>
  The container as this code meets it: whether the batch \<open>Open\<close> of copy-in fails, the
  writer behind each destination, what opening a path read-only gives, the raw result of
  \<open>Execve\<close>, and the result of \<open>copyDir\<close> (defined elsewhere in the repository).
\<close>

record Environment =
  m_Open_batch :: "error option"
  m_Open_writer :: "string \<Rightarrow> writer"
  m_Open :: "string \<Rightarrow> error + os_File"
  m_Execve :: RunnerResult
  m_copyDir :: "error option"

text \<open>The resource controller: the outcome of each call the code makes on it.\<close>

record CGroup =
  cg_SetMemoryLimitInBytes :: "error option"
  cg_SetPidsMax :: "error option"
  cg_CpuacctUsage :: "error + uint64"
  cg_MemoryMaxUsageInBytes :: "error + uint64"

datatype cg_call = SetMemoryLimitInBytes uint64 | SetPidsMax uint64

text \<open>
  How a call ends: the program panics, the call returns an error and no value, or it
  returns a value.
\<close>

datatype 'a outcome = Panicked | Failed error | Returned 'a

section \<open>Goroutines\<close>

text \<open>
  The order in which concurrent tasks finish is the scheduler's. \<open>pick_order ks xs\<close> lists
  the tasks \<open>xs\<close> in a completion order chosen by \<open>ks\<close>: each number picks the next task
  to finish among those still running. Every \<open>ks\<close> gives an order and every order is
  given by some \<open>ks\<close>.
\<close>

function pick_order :: "nat list \<Rightarrow> 'a list \<Rightarrow> 'a list" where
  "pick_order ks [] = []"
| "pick_order [] (x # xs) = x # xs"
| "pick_order (k # ks) (x # xs) =
     (let i = k mod length (x # xs)
      in (x # xs) ! i # pick_order ks (take i (x # xs) @ drop (Suc i) (x # xs)))"
  by pat_completeness auto
termination
  by (relation "measure (\<lambda>(ks, xs). length xs)") auto

text \<open>
  An error channel of capacity one written with \<open>writeErrorC\<close>, and the \<open>errgroup\<close>:
  both keep the first error in completion order.
\<close>

fun first_error :: "error option list \<Rightarrow> error option" where
  "first_error [] = None"
| "first_error (None # es) = first_error es"
| "first_error (Some e # es) = Some e"


section \<open>\<open>copyIn\<close> (run.go)\<close>

text \<open>
  One copying goroutine: open the host file, copy it to the container file. It returns the
  bytes that reached the container file and the error it wrote to the error channel.
\<close>

definition copyIn_task :: "writer \<Rightarrow> file_File \<Rightarrow> byte list \<times> error option" where
  "copyIn_task cFile hFile =
     (case file_Open hFile of
        Inl err \<Rightarrow> ([], Some err)
      | Inr hf \<Rightarrow> io_Copy cFile hf)"

definition copyIn_openCmd :: "(string \<times> file_File) list \<Rightarrow> OpenCmd list" where
  "copyIn_openCmd copyIn =
     map (\<lambda>(n, f). \<lparr>Path = n, Flag = {O_CREATE, O_RDWR, O_TRUNC}, Perm = 511\<rparr>) copyIn"

text \<open>
  \<open>copyIn\<close> returns its error, and here also what it did to the container: the open
  commands it issued and the bytes written to each destination. All goroutines are
  waited for; \<open>ks\<close> is the order in which they finish.
\<close>

record copyIn_run =
  ci_openCmd :: "OpenCmd list"
  ci_written :: "(string \<times> byte list) list"
  ci_err :: "error option"

definition copyIn :: "Environment \<Rightarrow> nat list \<Rightarrow> (string \<times> file_File) list \<Rightarrow> copyIn_run" where
  "copyIn m ks copyIn_map =
     (case m_Open_batch m of
        Some err \<Rightarrow>
          \<lparr>ci_openCmd = copyIn_openCmd copyIn_map, ci_written = [], ci_err = Some err\<rparr>
      | None \<Rightarrow>
          (let done = map (\<lambda>(n, f). (n, copyIn_task (m_Open_writer m n) f)) copyIn_map
           in \<lparr>ci_openCmd = copyIn_openCmd copyIn_map,
               ci_written = map (\<lambda>(n, r). (n, fst r)) done,
               ci_err = first_error (pick_order ks (map (\<lambda>(n, r). snd r) done))\<rparr>))"

section \<open>\<open>copyOutAndCollect\<close>\<close>

text \<open>
  What one task of the group does: it panics, returns an error, puts a named file into
  the result map and returns \<open>nil\<close>, or only returns \<open>nil\<close>.
\<close>

datatype task_result =
    Task_panic
  | Task_err error
  | Task_put string "byte list"
  | Task_nil

definition not_regular_msg :: "string \<Rightarrow> 32 word \<Rightarrow> string" where
  "not_regular_msg n t =
     ''File('' @ n @ '') is not a regular file '' @ decimal (unat t)"

definition size_exceeded_msg :: "string \<Rightarrow> int64 \<Rightarrow> uint64 \<Rightarrow> string" where
  "size_exceeded_msg n s lim =
     ''File('' @ n @ '') have size ('' @ fmt_d (sint s) @ '') exceeded the limit (''
       @ decimal (unat lim) @ '')''"

text \<open>
  The copy-out task of one path. \<open>int64(c.CopyOutMax)\<close> reinterprets the unsigned limit as
  signed, so the comparison is between \<open>sint\<close> values. \<open>buf.Grow\<close> panics on a negative
  count.
\<close>

definition copyOut_task :: "Environment \<Rightarrow> Cmd \<Rightarrow> string \<Rightarrow> task_result" where
  "copyOut_task m c n =
     (case m_Open m n of
        Inl err \<Rightarrow> Task_err err
      | Inr cf \<Rightarrow>
         (case Stat_err cf of
            Some err \<Rightarrow> Task_err err
          | None \<Rightarrow>
             if Stat_Mode cf AND os_ModeType \<noteq> 0
             then Task_err (Plain_error (not_regular_msg n (Stat_Mode cf AND os_ModeType)))
             else
               (let s = Stat_Size cf in
                if CopyOutMax c > 0 \<and> sint s > sint (CopyOutMax c)
                then Task_err (Plain_error (size_exceeded_msg n s (CopyOutMax c)))
                else if sint s < 0 then Task_panic
                else
                  (let r = LimitReader (contents cf) (sint s) in
                   case rd_err r of
                     Some err \<Rightarrow> Task_err err
                   | None \<Rightarrow> Task_put n (rd_bytes r)))))"

definition collect_task :: "pipeCollector \<Rightarrow> task_result" where
  "collect_task p =
     (if int (length (buff_Buffer (ptc_buff p))) > buff_Max (ptc_buff p)
      then Task_err (Status_error stypes_StatusOutputLimitExceeded)
      else Task_put (ptc_name p) (buff_Buffer (ptc_buff p)))"

definition copyDir_task :: "Environment \<Rightarrow> task_result" where
  "copyDir_task m = (case m_copyDir m of None \<Rightarrow> Task_nil | Some err \<Rightarrow> Task_err err)"

definition collect_tasks :: "Environment \<Rightarrow> Cmd \<Rightarrow> pipeCollector list \<Rightarrow> task_result list" where
  "collect_tasks m c ptc =
     map (copyOut_task m c) (CopyOut c) @ map collect_task ptc
       @ (if CopyOutDir c \<noteq> [] then [copyDir_task m] else [])"

fun put :: "task_result \<Rightarrow> (string \<rightharpoonup> byte list) \<Rightarrow> (string \<rightharpoonup> byte list)" where
  "put (Task_put n bs) rt = rt(n \<mapsto> bs)"
| "put t rt = rt"

fun task_error :: "task_result \<Rightarrow> error option" where
  "task_error (Task_err err) = Some err"
| "task_error t = None"

text \<open>
  The tasks run concurrently and finish in the order \<open>ks\<close> picks. A panic in any of them
  ends the program; otherwise the map holds every file put, the later put winning on a
  name, and \<open>g.Wait()\<close> gives the first error.
\<close>

definition copyOutAndCollect ::
  "Environment \<Rightarrow> Cmd \<Rightarrow> pipeCollector list \<Rightarrow> nat list
     \<Rightarrow> ((string \<rightharpoonup> byte list) \<times> error option) outcome" where
  "copyOutAndCollect m c ptc ks =
     (let done = pick_order ks (collect_tasks m c ptc)
      in if Task_panic \<in> set done then Panicked
         else Returned (fold put done Map.empty, first_error (map task_error done)))"

section \<open>\<open>runOne\<close> (run.go)\<close>

definition memoryLimitExtra :: uint64 where
  "memoryLimitExtra = push_bit 10 16"

text \<open>
  The goroutine of \<open>runOne\<close> that receives the raw result \<open>rt\<close> and builds the \<open>Result\<close>,
  from the point where \<open>copyOutAndCollect\<close> has returned \<open>(files, err)\<close>.
  \<open>time.Duration(cpuUsage)\<close> and \<open>stypes.Size(memoryUsage)\<close> keep the 64 bits.
\<close>

definition collect_error :: "(raw_status \<Rightarrow> string) \<Rightarrow> error option \<Rightarrow> Result \<Rightarrow> Result" where
  "collect_error sname err re =
     (case err of
        None \<Rightarrow> re
      | Some e \<Rightarrow>
          if Error re = [] then
            re\<lparr>Status := (case e of Status_error s \<Rightarrow> convertStatus s
                                   | Plain_error msg \<Rightarrow> types_StatusInternalError),
               Error := Error_of sname e\<rparr>
          else re)"

definition read_time :: "(raw_status \<Rightarrow> string) \<Rightarrow> CGroup \<Rightarrow> Result \<Rightarrow> Result" where
  "read_time sname cg re =
     (case cg_CpuacctUsage cg of
        Inl err \<Rightarrow> re\<lparr>Status := types_StatusInternalError, Error := Error_of sname err\<rparr>
      | Inr cpuUsage \<Rightarrow> re\<lparr>Time := cpuUsage\<rparr>)"

definition read_memory :: "(raw_status \<Rightarrow> string) \<Rightarrow> CGroup \<Rightarrow> Result \<Rightarrow> Result" where
  "read_memory sname cg re =
     (case cg_MemoryMaxUsageInBytes cg of
        Inl err \<Rightarrow> re\<lparr>Status := types_StatusInternalError, Error := Error_of sname err\<rparr>
      | Inr memoryUsage \<Rightarrow> re\<lparr>Memory := memoryUsage\<rparr>)"

definition check_limits :: "Cmd \<Rightarrow> bool \<Rightarrow> Result \<Rightarrow> Result" where
  "check_limits c tle re =
     (let re1 = (if tle then re\<lparr>Status := types_StatusTimeLimitExceeded\<rparr> else re)
      in if Memory re1 > MemoryLimit c
         then re1\<lparr>Status := types_StatusMemoryLimitExceeded\<rparr>
         else re1)"

definition runOne_result ::
  "(raw_status \<Rightarrow> string) \<Rightarrow> CGroup \<Rightarrow> Cmd \<Rightarrow> RunnerResult
     \<Rightarrow> (string \<rightharpoonup> byte list) \<Rightarrow> error option \<Rightarrow> bool \<Rightarrow> Result" where
  "runOne_result sname cg c rt files err tle =
     check_limits c tle
       (read_memory sname cg
         (read_time sname cg
           (collect_error sname err
             \<lparr>Status = convertStatus (rt_Status rt), Error = rt_Error rt,
              Time = rt_Time rt, Memory = rt_Memory rt, Files = files\<rparr>)))"

text \<open>
  \<open>runOne\<close>: the calls that program the controller, and what comes out: an error
  (\<open>Failed\<close>, no result), or the \<open>Result\<close> sent on the channel. \<open>ks_in\<close> and \<open>ks_out\<close> are the
  completion orders of the copy-in goroutines and of the collecting tasks.
\<close>

definition runOne ::
  "(raw_status \<Rightarrow> string) \<Rightarrow> Environment \<Rightarrow> CGroup \<Rightarrow> Cmd \<Rightarrow> pipeCollector list
     \<Rightarrow> nat list \<Rightarrow> nat list \<Rightarrow> cg_call list \<times> Result outcome" where
  "runOne sname m cg c ptc ks_in ks_out =
     (let set_mem = [SetMemoryLimitInBytes (MemoryLimit c + memoryLimitExtra)];
          set_pid = set_mem @ [SetPidsMax (PidLimit c)]
      in case cg_SetMemoryLimitInBytes cg of
           Some err \<Rightarrow> (set_mem, Failed err)
         | None \<Rightarrow>
            (case cg_SetPidsMax cg of
               Some err \<Rightarrow> (set_pid, Failed err)
             | None \<Rightarrow>
                (case (if length (CopyIn c) > 0 then ci_err (copyIn m ks_in (CopyIn c)) else None) of
                   Some err \<Rightarrow> (set_pid, Failed err)
                 | None \<Rightarrow>
                    (case copyOutAndCollect m c ptc ks_out of
                       Panicked \<Rightarrow> (set_pid, Panicked)
                     | Failed err \<Rightarrow> (set_pid, Failed err)
                     | Returned (files, err) \<Rightarrow>
                        (set_pid,
                         Returned (runOne_result sname cg c (m_Execve m) files err (Waiter c)))))))"

text \<open>The memory limits that a sequence of controller calls programs.\<close>

definition programmed_memory_limit :: "cg_call list \<Rightarrow> uint64 list" where
  "programmed_memory_limit calls =
     concat (map (\<lambda>call. case call of SetMemoryLimitInBytes v \<Rightarrow> [v] | SetPidsMax v \<Rightarrow> []) calls)"

section \<open>\<open>newProcess\<close>\<close>




section \<open>Pools (pool.go)\<close>

text \<open>
  The environment pool. An environment is any value \<open>'e\<close>; \<open>Reset\<close> is the method of the
  container library and returns the environment after the call and its error. \<open>build\<close>
  is what \<open>builder.Build()\<close> returns. Each method runs under the pool's mutex.
\<close>

definition pool_Get :: "error + 'e \<Rightarrow> 'e list \<Rightarrow> (error + 'e) \<times> 'e list" where
  "pool_Get build env =
     (if length env > 0
      then (Inr (env ! (length env - 1)), take (length env - 1) env)
      else (build, env))"

definition pool_Put :: "('e \<Rightarrow> 'e \<times> error option) \<Rightarrow> 'e list \<Rightarrow> 'e \<Rightarrow> 'e list" where
  "pool_Put Reset env e = env @ [fst (Reset e)]"

text \<open>
  A controller: its two counters, whether writing each counter fails, and whether it
  has been destroyed.
\<close>

record wCgroup =
  cpuacct_usage :: uint64
  memory_max_usage :: uint64
  SetCpuacctUsage_err :: "error option"
  SetMemoryMaxUsageInBytes_err :: "error option"
  destroyed :: bool

definition wCgroup_Reset :: "wCgroup \<Rightarrow> wCgroup \<times> error option" where
  "wCgroup_Reset c =
     (case SetCpuacctUsage_err c of
        Some err \<Rightarrow> (c, Some err)
      | None \<Rightarrow>
         (let c1 = c\<lparr>cpuacct_usage := 0\<rparr>
          in case SetMemoryMaxUsageInBytes_err c1 of
               Some err \<Rightarrow> (c1, Some err)
             | None \<Rightarrow> (c1\<lparr>memory_max_usage := 0\<rparr>, None)))"

definition wCgroup_Destory :: "wCgroup \<Rightarrow> wCgroup" where
  "wCgroup_Destory c = c\<lparr>destroyed := True\<rparr>"

definition wCgroupPool_Get :: "error + wCgroup \<Rightarrow> wCgroup list \<Rightarrow> (error + wCgroup) \<times> wCgroup list" where
  "wCgroupPool_Get build cgs =
     (if length cgs > 0
      then (Inr (cgs ! (length cgs - 1)), take (length cgs - 1) cgs)
      else (build, cgs))"

definition wCgroupPool_Put :: "wCgroup list \<Rightarrow> wCgroup \<Rightarrow> wCgroup list" where
  "wCgroupPool_Put cgs c = cgs @ [fst (wCgroup_Reset c)]"

section \<open>Token authentication (main.go)\<close>

text \<open>
  A request as the handlers see it. \<open>Authorization\<close> is what \<open>GetHeader\<close> returns, empty
  when the header is absent.
\<close>

record Request =
  Method :: string
  URL_Path :: string
  Authorization :: string

text \<open>
  What a handler does with a request: pass it on to the rest of the chain, abort the
  chain with a status code, or answer it (an endpoint, named).
\<close>

datatype action = Next | AbortWithStatus nat | Respond string

type_synonym HandlerFunc = "Request \<Rightarrow> action"









fun run_handlers :: "HandlerFunc list \<Rightarrow> Request \<Rightarrow> action" where
  "run_handlers [] c = Next"
| "run_handlers (h # hs) c = (case h c of Next \<Rightarrow> run_handlers hs c | a \<Rightarrow> a)"



text \<open>The logging, recovery and metrics middlewares call the rest of the chain.\<close>

definition pass_through :: HandlerFunc where
  "pass_through = (\<lambda>c. Next)"







text \<open>
  gRPC. The context of a call is what \<open>AuthFromMD(ctx, "bearer")\<close> extracts from its
  metadata: an error, or the token. An interceptor rejects a call with an error or lets
  it through to the next one; the server runs the chain in order.
\<close>

datatype grpc_code = codes_Unauthenticated | codes_Other nat








section \<open>Concrete runs\<close>

text \<open>Inputs on which the statements below are evaluated.\<close>

definition ex_sname :: "raw_status \<Rightarrow> string" where
  "ex_sname s = ''status''"

definition ex_writer :: "string \<Rightarrow> writer" where
  "ex_writer n = \<lparr>wr_fail = None\<rparr>"

text \<open>
  A container with a regular file \<open>out\<close> that held three bytes when \<open>Stat\<close> was called and
  holds four when it is read, a regular file \<open>big\<close> of five bytes, and a directory \<open>dir\<close>.
\<close>

definition ex_out :: os_File where
  "ex_out = \<lparr>Stat_err = None, Stat_Mode = 420, Stat_Size = 3,
             contents = \<lparr>rd_bytes = [1, 2, 3, 4], rd_err = None\<rparr>\<rparr>"

definition ex_big :: os_File where
  "ex_big = \<lparr>Stat_err = None, Stat_Mode = 420, Stat_Size = 5,
             contents = \<lparr>rd_bytes = [1, 2, 3, 4, 5], rd_err = None\<rparr>\<rparr>"

definition ex_dir :: os_File where
  "ex_dir = \<lparr>Stat_err = None, Stat_Mode = os_ModeDir OR 493, Stat_Size = 4096,
             contents = \<lparr>rd_bytes = [], rd_err = Some (Plain_error ''is a directory'')\<rparr>\<rparr>"

definition ex_Open :: "string \<Rightarrow> error + os_File" where
  "ex_Open n =
     (if n = ''out'' then Inr ex_out
      else if n = ''big'' then Inr ex_big
      else if n = ''dir'' then Inr ex_dir
      else Inl (Plain_error ''no such file''))"

definition ex_m :: Environment where
  "ex_m = \<lparr>m_Open_batch = None, m_Open_writer = ex_writer, m_Open = ex_Open,
           m_Execve = \<lparr>rt_Status = stypes_StatusNormal, rt_Error = [],
                       rt_Time = 5, rt_Memory = 10\<rparr>,
           m_copyDir = None\<rparr>"

definition ex_cg :: CGroup where
  "ex_cg = \<lparr>cg_SetMemoryLimitInBytes = None, cg_SetPidsMax = None,
            cg_CpuacctUsage = Inr 1000, cg_MemoryMaxUsageInBytes = Inr 100\<rparr>"

definition ex_c :: Cmd where
  "ex_c = \<lparr>Args = [''/bin/echo'', ''hi''], Env = [], MemoryLimit = 4096, PidLimit = 1,
           CopyIn = [], CopyOut = [], CopyOutMax = 0, CopyOutDir = [], Waiter = False\<rparr>"



definition ex_src :: file_File where
  "ex_src = \<lparr>file_Name = ''src'', file_Open = Inr \<lparr>rd_bytes = [0, 1, 2], rd_err = None\<rparr>\<rparr>"

definition ex_missing :: file_File where
  "ex_missing = \<lparr>file_Name = ''missing'', file_Open = Inl (Plain_error ''no such file'')\<rparr>"

definition ex_wCgroup :: wCgroup where
  "ex_wCgroup = \<lparr>cpuacct_usage = 7, memory_max_usage = 9, SetCpuacctUsage_err = None,
                 SetMemoryMaxUsageInBytes_err = None, destroyed = False\<rparr>"

definition ex_Reset :: "nat \<Rightarrow> nat \<times> error option" where
  "ex_Reset e = (if e = 0 then (0, None) else (e, Some (Plain_error ''reset failed'')))"






text \<open>The result that \<open>runOne\<close> sends on its channel, when it sends one.\<close>

definition published :: "cg_call list \<times> Result outcome \<Rightarrow> Result option" where
  "published r = (case snd r of Returned re \<Rightarrow> Some re | Panicked \<Rightarrow> None | Failed err \<Rightarrow> None)"




definition ex_copyIn :: "(string \<times> file_File) list" where
  "ex_copyIn = [(''/w/a'', ex_missing), (''/w/b'', ex_src)]"

definition ex_bad :: wCgroup where
  "ex_bad = ex_wCgroup\<lparr>SetCpuacctUsage_err := Some (Plain_error ''write failed'')\<rparr>"





section \<open>Auxiliary facts\<close>

lemma set_remove_nth:
  "i < length l \<Longrightarrow> insert (l ! i) (set (take i l @ drop (Suc i) l)) = set l"
proof -
  assume i: "i < length l"
  have "set l = set (take i l @ l ! i # drop (Suc i) l)"
    using id_take_nth_drop [OF i] by simp
  then show ?thesis by auto
qed

lemma set_pick_order: "set (pick_order ks xs) = set xs"
proof (induction ks xs rule: pick_order.induct)
  case (3 k ks x xs)
  define l where "l = x # xs"
  define i where "i = k mod length l"
  have i: "i < length l" by (simp add: i_def l_def)
  have step: "pick_order (k # ks) l = l ! i # pick_order ks (take i l @ drop (Suc i) l)"
    unfolding l_def i_def by (simp only: pick_order.simps Let_def)
  have ih: "set (pick_order ks (take i l @ drop (Suc i) l)) = set (take i l @ drop (Suc i) l)"
    using 3 unfolding l_def i_def by blast
  have "set (pick_order (k # ks) l) = insert (l ! i) (set (take i l @ drop (Suc i) l))"
    by (simp only: step ih list.simps)
  also have "\<dots> = set l" using i by (rule set_remove_nth)
  finally show ?case unfolding l_def .
qed simp_all

lemma first_error_None: "first_error es = None \<longleftrightarrow> (\<forall>e \<in> set es. e = None)"
  by (induction es rule: first_error.induct) auto

lemma first_error_Some: "first_error es = Some e \<Longrightarrow> Some e \<in> set es"
  by (induction es rule: first_error.induct) auto

lemma fold_put_Some:
  "fold put ts rt n = Some bs \<Longrightarrow> rt n = Some bs \<or> Task_put n bs \<in> set ts"
proof (induction ts arbitrary: rt)
  case Nil
  then show ?case by simp
next
  case (Cons t ts)
  from Cons.prems have "fold put ts (put t rt) n = Some bs" by simp
  then have "put t rt n = Some bs \<or> Task_put n bs \<in> set ts" by (rule Cons.IH)
  then show ?case by (cases t) (auto split: if_splits)
qed

lemma runOne_calls:
  "fst (runOne sname m cg c ptc ks_in ks_out)
     = [SetMemoryLimitInBytes (MemoryLimit c + memoryLimitExtra)]
   \<or> fst (runOne sname m cg c ptc ks_in ks_out)
     = [SetMemoryLimitInBytes (MemoryLimit c + memoryLimitExtra), SetPidsMax (PidLimit c)]"
  by (simp add: runOne_def Let_def split: option.splits outcome.splits prod.splits)

section \<open>The status mapping\<close>

text \<open>
  C2. \<open>convertStatus\<close> is defined on every raw status and maps as listed: Normal to
  Accepted, Signalled and NonzeroExitStatus to RuntimeError, MemoryLimitExceeded,
  TimeLimitExceeded and OutputLimitExceeded to the statuses of the same name,
  DisallowedSyscall to DangerousSyscall, and every other raw status to InternalError
  (and only those).
\<close>

theorem convertStatus_total_mapping:
  "convertStatus stypes_StatusNormal = types_StatusAccepted
   \<and> convertStatus stypes_StatusSignalled = types_StatusRuntimeError
   \<and> convertStatus stypes_StatusNonzeroExitStatus = types_StatusRuntimeError
   \<and> convertStatus stypes_StatusMemoryLimitExceeded = types_StatusMemoryLimitExceeded
   \<and> convertStatus stypes_StatusTimeLimitExceeded = types_StatusTimeLimitExceeded
   \<and> convertStatus stypes_StatusOutputLimitExceeded = types_StatusOutputLimitExceeded
   \<and> convertStatus stypes_StatusDisallowedSyscall = types_StatusDangerousSyscall
   \<and> (\<forall>n. convertStatus (stypes_StatusOther n) = types_StatusInternalError)
   \<and> (\<exists>t. convertStatus s = t)
   \<and> ((convertStatus s = types_StatusInternalError) = (\<exists>n. s = stypes_StatusOther n))"
  by (cases s) simp_all

section \<open>The programmed memory limit\<close>

text \<open>
  C7, as stated, fails when the addition overflows: for the largest limit the controller
  is programmed with 16383, which is not the limit plus 16384.
\<close>

theorem memory_limit_counterexample:
  "programmed_memory_limit
     (fst (runOne ex_sname ex_m ex_cg (ex_c\<lparr>MemoryLimit := 18446744073709551615\<rparr>) [] [] []))
     = [16383]
   \<and> unat (16383 :: uint64) \<noteq> unat (18446744073709551615 :: uint64) + 16384"
  by (simp add: runOne_def programmed_memory_limit_def ex_c_def ex_cg_def ex_m_def
      memoryLimitExtra_def copyOutAndCollect_def collect_tasks_def Let_def)

text \<open>
  C7, amended. Every run of \<open>runOne\<close> programs exactly one memory limit, the caller's limit
  plus 16384 in unsigned 64-bit arithmetic: the sum modulo \<open>2 ^ 64\<close>, which is the exact
  sum whenever that is below \<open>2 ^ 64\<close>.
\<close>

theorem memory_limit_programmed:
  "programmed_memory_limit (fst (runOne sname m cg c ptc ks_in ks_out)) = [MemoryLimit c + 16384]
   \<and> unat (MemoryLimit c + 16384) = (unat (MemoryLimit c) + 16384) mod 2 ^ 64
   \<and> (unat (MemoryLimit c) + 16384 < 2 ^ 64 \<longrightarrow>
        unat (MemoryLimit c + 16384) = unat (MemoryLimit c) + 16384)"
proof -
  have ext: "memoryLimitExtra = 16384" by (simp add: memoryLimitExtra_def)
  have a: "programmed_memory_limit (fst (runOne sname m cg c ptc ks_in ks_out))
             = [MemoryLimit c + 16384]"
    using runOne_calls [of sname m cg c ptc ks_in ks_out]
    by (auto simp: programmed_memory_limit_def ext)
  have b: "unat (MemoryLimit c + 16384) = (unat (MemoryLimit c) + 16384) mod 2 ^ 64"
    by (simp add: unat_word_ariths)
  show ?thesis using a b by simp
qed

theorem memory_limit_programmed_witness:
  "unat (MemoryLimit ex_c) + 16384 < 2 ^ 64
   \<and> programmed_memory_limit (fst (runOne ex_sname ex_m ex_cg ex_c [] [] [])) = [20480]
   \<and> unat (MemoryLimit ex_c + 16384) = 20480"
  using memory_limit_programmed [of ex_sname ex_m ex_cg ex_c "[]" "[]" "[]"]
  by (simp add: ex_c_def)

section \<open>Facts about the result of \<open>runOne\<close>\<close>

lemma runOne_published:
  assumes "published (runOne sname m cg c ptc ks_in ks_out) = Some re"
  shows "\<exists>files err. copyOutAndCollect m c ptc ks_out = Returned (files, err)
           \<and> re = runOne_result sname cg c (m_Execve m) files err (Waiter c)"
  using assms
  by (auto simp: published_def runOne_def Let_def split: option.splits outcome.splits if_splits)

lemma check_limits_Status:
  "Status (check_limits c tle re) =
     (if MemoryLimit c < Memory re then types_StatusMemoryLimitExceeded
      else if tle then types_StatusTimeLimitExceeded else Status re)"
  by (simp add: check_limits_def Let_def)

lemma check_limits_fields:
  "Memory (check_limits c tle re) = Memory re \<and> Time (check_limits c tle re) = Time re
   \<and> Error (check_limits c tle re) = Error re \<and> Files (check_limits c tle re) = Files re"
  by (simp add: check_limits_def Let_def)

lemma collect_error_fields:
  "Time (collect_error sname err re) = Time re \<and> Memory (collect_error sname err re) = Memory re
   \<and> Files (collect_error sname err re) = Files re"
  by (simp add: collect_error_def split: option.splits)


lemma runOne_result_Memory:
  "Memory (runOne_result sname cg c rt files err tle) =
     (case cg_MemoryMaxUsageInBytes cg of Inr v \<Rightarrow> v | Inl e \<Rightarrow> rt_Memory rt)"
  by (simp add: runOne_result_def check_limits_fields read_memory_def read_time_def
      collect_error_fields split: sum.splits)


section \<open>Time limit and memory limit\<close>

text \<open>
  C1, as stated, fails: a run whose waiter reported the time limit and whose measured peak
  memory (100) exceeds the memory limit (50) is published as MemoryLimitExceeded.
\<close>

theorem tle_memory_counterexample:
  "Waiter (ex_c\<lparr>MemoryLimit := 50, Waiter := True\<rparr>)
   \<and> map_option Status
        (published (runOne ex_sname ex_m ex_cg (ex_c\<lparr>MemoryLimit := 50, Waiter := True\<rparr>) [] [] []))
       = Some types_StatusMemoryLimitExceeded"
  by (simp add: published_def runOne_def runOne_result_def check_limits_def read_memory_def
      read_time_def collect_error_def ex_c_def ex_cg_def ex_m_def
      copyOutAndCollect_def collect_tasks_def Let_def)

text \<open>
  C1, amended. In every run in which the waiter set the tle flag, the published status is
  MemoryLimitExceeded when the peak memory of the result exceeds \<open>MemoryLimit\<close>, and
  TimeLimitExceeded otherwise: the memory check comes last and overrides the flag.
\<close>

theorem tle_status:
  assumes "published (runOne sname m cg c ptc ks_in ks_out) = Some re" and "Waiter c"
  shows "Status re = (if MemoryLimit c < Memory re then types_StatusMemoryLimitExceeded
                      else types_StatusTimeLimitExceeded)"
proof -
  from runOne_published [OF assms(1)] obtain files err where
    re: "re = runOne_result sname cg c (m_Execve m) files err (Waiter c)" by blast
  show ?thesis
    unfolding re runOne_result_def using assms(2)
    by (simp add: check_limits_Status check_limits_fields)
qed

theorem tle_status_witness:
  "published (runOne ex_sname ex_m ex_cg (ex_c\<lparr>Waiter := True\<rparr>) [] [] [])
     = Some \<lparr>Status = types_StatusTimeLimitExceeded, Error = [], Time = 1000, Memory = 100,
             Files = Map.empty\<rparr>
   \<and> Waiter (ex_c\<lparr>Waiter := True\<rparr>)
   \<and> \<not> MemoryLimit (ex_c\<lparr>Waiter := True\<rparr>) < 100"
proof -
  have p: "published (runOne ex_sname ex_m ex_cg (ex_c\<lparr>Waiter := True\<rparr>) [] [] [])
     = Some \<lparr>Status = types_StatusTimeLimitExceeded, Error = [], Time = 1000, Memory = 100,
             Files = Map.empty\<rparr>"
    by (simp add: published_def runOne_def runOne_result_def check_limits_def read_memory_def
      read_time_def collect_error_def ex_c_def ex_cg_def ex_m_def
      copyOutAndCollect_def collect_tasks_def Let_def)
  have w: "Waiter (ex_c\<lparr>Waiter := True\<rparr>)" by simp
  from tle_status [OF p w] show ?thesis using p by (simp add: ex_c_def)
qed

section \<open>Reading the controller\<close>






section \<open>Facts about \<open>copyOutAndCollect\<close>\<close>

lemma sint_le_uint: "sint (w :: 'a::len word) \<le> uint w"
proof -
  have "- (2 ^ (LENGTH('a) - Suc 0)) \<le> uint w"
    by (rule order_trans [of _ 0]) simp_all
  then show ?thesis
    by (simp add: sint_uint signed_take_bit_int_less_eq_self_iff)
qed

lemma LimitReader_bytes:
  "rd_err (LimitReader r n) = None \<Longrightarrow> rd_bytes (LimitReader r n) = take (nat n) (rd_bytes r)"
  by (auto simp: LimitReader_def split: if_splits)

lemma copyOut_task_put:
  assumes "copyOut_task m c n = Task_put n' bs"
  shows "n' = n \<and> (\<exists>cf. m_Open m n = Inr cf \<and> Stat_err cf = None
           \<and> Stat_Mode cf AND os_ModeType = 0
           \<and> 0 \<le> sint (Stat_Size cf)
           \<and> bs = take (nat (sint (Stat_Size cf))) (rd_bytes (contents cf))
           \<and> (0 < CopyOutMax c \<longrightarrow> sint (Stat_Size cf) \<le> sint (CopyOutMax c)))"
  using assms
  by (auto simp: copyOut_task_def Let_def LimitReader_bytes
      split: sum.splits option.splits if_splits)

lemma collect_task_put:
  assumes "collect_task p = Task_put n bs"
  shows "n = ptc_name p \<and> bs = buff_Buffer (ptc_buff p)
         \<and> int (length bs) \<le> buff_Max (ptc_buff p)"
  using assms by (auto simp: collect_task_def split: if_splits)

lemma collect_tasks_put:
  assumes "Task_put n bs \<in> set (collect_tasks m c ptc)"
  shows "(n \<in> set (CopyOut c) \<and> copyOut_task m c n = Task_put n bs)
       \<or> (\<exists>p \<in> set ptc. collect_task p = Task_put n bs)"
proof -
  from assms consider
      (out) n' where "n' \<in> set (CopyOut c)" "copyOut_task m c n' = Task_put n bs"
    | (pipe) p where "p \<in> set ptc" "collect_task p = Task_put n bs"
    | (dir) "copyDir_task m = Task_put n bs"
    by (auto simp: collect_tasks_def split: if_splits)
  then show ?thesis
  proof cases
    case out
    from copyOut_task_put [OF out(2)] have "n = n'" by simp
    with out show ?thesis by simp
  next
    case pipe
    then show ?thesis by blast
  next
    case dir
    then show ?thesis by (simp add: copyDir_task_def split: option.splits)
  qed
qed

lemma copyOutAndCollect_Returned:
  assumes "copyOutAndCollect m c ptc ks = Returned (files, err)"
  shows "(\<forall>n bs. files n = Some bs \<longrightarrow> Task_put n bs \<in> set (collect_tasks m c ptc))
       \<and> (\<forall>e. err = Some e \<longrightarrow> Task_err e \<in> set (collect_tasks m c ptc))
       \<and> (err = None \<longrightarrow> (\<forall>t \<in> set (collect_tasks m c ptc). task_error t = None))
       \<and> Task_panic \<notin> set (collect_tasks m c ptc)"
proof -
  define fin where "fin = pick_order ks (collect_tasks m c ptc)"
  have sd: "set fin = set (collect_tasks m c ptc)"
    unfolding fin_def by (rule set_pick_order)
  from assms have np: "Task_panic \<notin> set fin"
    and f: "files = fold put fin Map.empty"
    and e: "err = first_error (map task_error fin)"
    by (auto simp: copyOutAndCollect_def Let_def fin_def split: if_splits)
  have 1: "\<forall>n bs. files n = Some bs \<longrightarrow> Task_put n bs \<in> set (collect_tasks m c ptc)"
    using fold_put_Some [of fin Map.empty] unfolding f sd by fastforce
  have 2: "\<forall>x. err = Some x \<longrightarrow> Task_err x \<in> set (collect_tasks m c ptc)"
  proof (intro allI impI)
    fix x assume "err = Some x"
    then have "Some x \<in> set (map task_error fin)"
      unfolding e by (rule first_error_Some)
    then obtain t where t: "t \<in> set fin" "task_error t = Some x" by auto
    have "t = Task_err x" using t(2) by (cases t) simp_all
    with t sd show "Task_err x \<in> set (collect_tasks m c ptc)" by simp
  qed
  have 3: "err = None \<longrightarrow> (\<forall>t \<in> set (collect_tasks m c ptc). task_error t = None)"
    unfolding e first_error_None sd [symmetric] by simp
  from 1 2 3 np sd show ?thesis by simp
qed

section \<open>More facts about the result of \<open>runOne\<close>\<close>

lemma runOne_published_collect:
  assumes "published (runOne sname m cg c ptc ks_in ks_out) = Some re"
  shows "\<exists>err. copyOutAndCollect m c ptc ks_out = Returned (Files re, err)
           \<and> re = runOne_result sname cg c (m_Execve m) (Files re) err (Waiter c)"
proof -
  from runOne_published [OF assms] obtain files err where
    r: "copyOutAndCollect m c ptc ks_out = Returned (files, err)"
       "re = runOne_result sname cg c (m_Execve m) files err (Waiter c)" by blast
  have f: "Files re = files"
    unfolding r(2) runOne_result_def
    by (simp add: check_limits_fields collect_error_fields read_memory_def read_time_def
        split: sum.splits)
  show ?thesis
    unfolding f using r by (intro exI [of _ err] conjI)
qed

lemma runOne_result_collect_error:
  assumes "rt_Error rt = []" and "cg_CpuacctUsage cg = Inr u"
    and "cg_MemoryMaxUsageInBytes cg = Inr v" and "\<not> tle" and "\<not> MemoryLimit c < v"
  shows "Status (runOne_result sname cg c rt files (Some e) tle)
           = (case e of Status_error s \<Rightarrow> convertStatus s
                      | Plain_error msg \<Rightarrow> types_StatusInternalError)
       \<and> Error (runOne_result sname cg c rt files (Some e) tle) = Error_of sname e"
  using assms
  by (simp add: runOne_result_def check_limits_Status check_limits_fields read_memory_def
      read_time_def collect_error_def)

lemma published_Status_not_FileError:
  assumes "published (runOne sname m cg c ptc ks_in ks_out) = Some re"
  shows "Status re \<noteq> types_StatusFileError"
proof -
  have cs: "\<And>s. convertStatus s \<noteq> types_StatusFileError"
    subgoal for s by (cases s) simp_all
    done
  from runOne_published [OF assms] obtain files err where
    re: "re = runOne_result sname cg c (m_Execve m) files err (Waiter c)" by blast
  show ?thesis
    unfolding re runOne_result_def
    by (auto simp: check_limits_Status check_limits_fields read_memory_def
      read_time_def collect_error_def cs split: sum.splits option.splits error.splits)
qed


section \<open>Pipe collectors\<close>







section \<open>Evaluation on concrete runs\<close>

lemma decimal_digit: "n < 10 \<Longrightarrow> decimal n = [digit n]"
  by (subst decimal.simps) simp

lemma decimal_more: "\<not> n < 10 \<Longrightarrow> decimal n = decimal (n div 10) @ [digit n]"
  by (subst decimal.simps) simp

lemma os_ModeDir_value: "os_ModeDir = 2147483648"
  by (simp add: os_ModeDir_def)

lemma os_ModeType_value: "os_ModeType = 2401763328"
  by (simp add: os_ModeType_def os_ModeDir_def os_ModeSymlink_def os_ModeDevice_def
      os_ModeNamedPipe_def os_ModeSocket_def os_ModeCharDevice_def os_ModeIrregular_def)

lemma ex_dir_type: "Stat_Mode ex_dir AND os_ModeType = os_ModeDir"
  by (simp add: ex_dir_def os_ModeType_value os_ModeDir_value)

lemma ex_dir_msg:
  "not_regular_msg ''dir'' os_ModeDir = ''File(dir) is not a regular file 2147483648''"
  by (simp add: not_regular_msg_def os_ModeDir_value decimal_digit decimal_more digit_def)

lemma ex_dir_task:
  "copyOut_task ex_m (ex_c\<lparr>CopyOut := [''dir'']\<rparr>) ''dir''
     = Task_err (Plain_error ''File(dir) is not a regular file 2147483648'')"
proof -
  have o: "m_Open ex_m ''dir'' = Inr ex_dir" by (simp add: ex_m_def ex_Open_def)
  have s: "Stat_err ex_dir = None" by (simp add: ex_dir_def)
  have n: "os_ModeDir \<noteq> 0" by (simp add: os_ModeDir_value)
  show ?thesis
    by (simp add: copyOut_task_def o s ex_dir_type n ex_dir_msg)
qed

lemma runOne_no_copyIn:
  assumes "cg_SetMemoryLimitInBytes cg = None" and "cg_SetPidsMax cg = None"
    and "CopyIn c = []" and "copyOutAndCollect m c ptc ks_out = Returned (files, err)"
  shows "published (runOne sname m cg c ptc ks_in ks_out)
           = Some (runOne_result sname cg c (m_Execve m) files err (Waiter c))"
  using assms by (simp add: published_def runOne_def Let_def)

lemma ex_run_dir:
  "published (runOne ex_sname ex_m ex_cg (ex_c\<lparr>CopyOut := [''dir'']\<rparr>) [] [] [])
     = Some \<lparr>Status = types_StatusInternalError,
             Error = ''File(dir) is not a regular file 2147483648'',
             Time = 1000, Memory = 100, Files = Map.empty\<rparr>"
proof -
  have t: "collect_tasks ex_m (ex_c\<lparr>CopyOut := [''dir'']\<rparr>) []
             = [Task_err (Plain_error ''File(dir) is not a regular file 2147483648'')]"
    using ex_dir_task by (simp add: collect_tasks_def ex_c_def)
  have c: "copyOutAndCollect ex_m (ex_c\<lparr>CopyOut := [''dir'']\<rparr>) [] []
             = Returned (Map.empty, Some (Plain_error ''File(dir) is not a regular file 2147483648''))"
    by (simp add: copyOutAndCollect_def t)
  have r: "runOne_result ex_sname ex_cg (ex_c\<lparr>CopyOut := [''dir'']\<rparr>) (m_Execve ex_m) Map.empty
             (Some (Plain_error ''File(dir) is not a regular file 2147483648''))
             (Waiter (ex_c\<lparr>CopyOut := [''dir'']\<rparr>))
           = \<lparr>Status = types_StatusInternalError,
             Error = ''File(dir) is not a regular file 2147483648'',
             Time = 1000, Memory = 100, Files = Map.empty\<rparr>"
    by (simp add: runOne_result_def check_limits_def read_memory_def
        read_time_def collect_error_def ex_c_def ex_cg_def ex_m_def)
  have "published (runOne ex_sname ex_m ex_cg (ex_c\<lparr>CopyOut := [''dir'']\<rparr>) [] [] [])
          = Some (runOne_result ex_sname ex_cg (ex_c\<lparr>CopyOut := [''dir'']\<rparr>) (m_Execve ex_m)
              Map.empty (Some (Plain_error ''File(dir) is not a regular file 2147483648''))
              (Waiter (ex_c\<lparr>CopyOut := [''dir'']\<rparr>)))"
    by (rule runOne_no_copyIn [OF _ _ _ c]) (simp_all add: ex_cg_def ex_c_def)
  then show ?thesis by (simp only: r)
qed

section \<open>Copy-out of files that are not regular\<close>

text \<open>
  C5, as stated, fails: copying out a path that names a directory is published with status
  InternalError, not FileError.
\<close>

theorem non_regular_counterexample:
  "m_Open ex_m ''dir'' = Inr ex_dir
   \<and> Stat_err ex_dir = None
   \<and> Stat_Mode ex_dir AND os_ModeType = os_ModeDir
   \<and> os_ModeDir \<noteq> 0
   \<and> map_option Status
        (published (runOne ex_sname ex_m ex_cg (ex_c\<lparr>CopyOut := [''dir'']\<rparr>) [] [] []))
       = Some types_StatusInternalError"
  by (simp add: ex_run_dir ex_dir_type)
    (simp add: ex_m_def ex_Open_def ex_dir_def os_ModeDir_value)

text \<open>
  C5, amended. For every copy-out path that names a file whose mode has a file-type bit
  set (directory, symlink, device, pipe, socket), the copy-out of that file fails with an
  error naming the file and nothing is delivered for it. No run is ever published with
  status FileError: when no collecting task failed with a sandbox status, the raw result
  carried no error message, both controller reads succeeded, the waiter did not set the
  tle flag and the peak memory does not exceed the limit, the status is InternalError and
  the message is that of a failed task.
\<close>

theorem non_regular_copy_out:
  assumes "published (runOne sname m cg c ptc ks_in ks_out) = Some re"
    and "n \<in> set (CopyOut c)" and "m_Open m n = Inr cf" and "Stat_err cf = None"
    and "Stat_Mode cf AND os_ModeType \<noteq> 0"
  shows "copyOut_task m c n
           = Task_err (Plain_error (not_regular_msg n (Stat_Mode cf AND os_ModeType)))
       \<and> (\<forall>bs. Files re n = Some bs \<longrightarrow>
             (\<exists>p \<in> set ptc. n = ptc_name p \<and> bs = buff_Buffer (ptc_buff p)))
       \<and> Status re \<noteq> types_StatusFileError
       \<and> ((\<forall>t \<in> set (collect_tasks m c ptc). \<forall>s. t \<noteq> Task_err (Status_error s))
            \<longrightarrow> rt_Error (m_Execve m) = []
            \<longrightarrow> (\<exists>u. cg_CpuacctUsage cg = Inr u)
            \<longrightarrow> (\<exists>v. cg_MemoryMaxUsageInBytes cg = Inr v)
            \<longrightarrow> \<not> Waiter c \<longrightarrow> \<not> MemoryLimit c < Memory re
            \<longrightarrow> Status re = types_StatusInternalError
                \<and> Task_err (Plain_error (Error re)) \<in> set (collect_tasks m c ptc))"
proof -
  have task: "copyOut_task m c n
           = Task_err (Plain_error (not_regular_msg n (Stat_Mode cf AND os_ModeType)))"
    using assms(3-5) by (simp add: copyOut_task_def)
  from runOne_published_collect [OF assms(1)] obtain err where
    coll: "copyOutAndCollect m c ptc ks_out = Returned (Files re, err)"
    and re: "re = runOne_result sname cg c (m_Execve m) (Files re) err (Waiter c)" by blast
  note R = copyOutAndCollect_Returned [OF coll]
  have deliv: "\<exists>p \<in> set ptc. n = ptc_name p \<and> bs = buff_Buffer (ptc_buff p)"
    if "Files re n = Some bs" for bs
  proof -
    from R that have "Task_put n bs \<in> set (collect_tasks m c ptc)" by blast
    from collect_tasks_put [OF this] task
    obtain p where "p \<in> set ptc" "collect_task p = Task_put n bs" by auto
    with collect_task_put [OF this(2)] show ?thesis by blast
  qed
  have internal: "Status re = types_StatusInternalError
                \<and> Task_err (Plain_error (Error re)) \<in> set (collect_tasks m c ptc)"
    if pl: "\<forall>t \<in> set (collect_tasks m c ptc). \<forall>s. t \<noteq> Task_err (Status_error s)"
    and rt: "rt_Error (m_Execve m) = []"
    and cpu: "\<exists>u. cg_CpuacctUsage cg = Inr u"
    and mem: "\<exists>v. cg_MemoryMaxUsageInBytes cg = Inr v"
    and tle: "\<not> Waiter c" and lim: "\<not> MemoryLimit c < Memory re"
  proof -
    have "Task_err (Plain_error (not_regular_msg n (Stat_Mode cf AND os_ModeType)))
            \<in> set (collect_tasks m c ptc)"
      using assms(2) task by (force simp: collect_tasks_def)
    with R have "err \<noteq> None" by force
    then obtain e where e: "err = Some e" by blast
    with R have in_tasks: "Task_err e \<in> set (collect_tasks m c ptc)" by blast
    with pl obtain msg where msg: "e = Plain_error msg" by (cases e) auto
    from cpu mem obtain u v where uv: "cg_CpuacctUsage cg = Inr u"
      "cg_MemoryMaxUsageInBytes cg = Inr v" by blast
    have "Memory re = v"
      by (subst re) (simp add: runOne_result_Memory uv)
    with lim have lim': "\<not> MemoryLimit c < v" by simp
    from runOne_result_collect_error [OF rt uv tle lim', of sname "Files re" e]
    have "Status re = types_StatusInternalError \<and> Error re = msg"
      unfolding e [symmetric] re [symmetric] by (simp add: msg)
    with in_tasks msg show ?thesis by simp
  qed
  from task deliv internal published_Status_not_FileError [OF assms(1)]
  show ?thesis by blast
qed

theorem non_regular_copy_out_witness:
  "published (runOne ex_sname ex_m ex_cg (ex_c\<lparr>CopyOut := [''dir'']\<rparr>) [] [] [])
     = Some \<lparr>Status = types_StatusInternalError,
             Error = ''File(dir) is not a regular file 2147483648'',
             Time = 1000, Memory = 100, Files = Map.empty\<rparr>
   \<and> ''dir'' \<in> set (CopyOut (ex_c\<lparr>CopyOut := [''dir'']\<rparr>))
   \<and> m_Open ex_m ''dir'' = Inr ex_dir
   \<and> Stat_err ex_dir = None
   \<and> Stat_Mode ex_dir AND os_ModeType \<noteq> 0
   \<and> copyOut_task ex_m (ex_c\<lparr>CopyOut := [''dir'']\<rparr>) ''dir''
       = Task_err (Plain_error (not_regular_msg ''dir'' (Stat_Mode ex_dir AND os_ModeType)))
   \<and> collect_tasks ex_m (ex_c\<lparr>CopyOut := [''dir'']\<rparr>) []
       = [Task_err (Plain_error ''File(dir) is not a regular file 2147483648'')]
   \<and> rt_Error (m_Execve ex_m) = []
   \<and> cg_CpuacctUsage ex_cg = Inr 1000 \<and> cg_MemoryMaxUsageInBytes ex_cg = Inr 100
   \<and> \<not> Waiter (ex_c\<lparr>CopyOut := [''dir'']\<rparr>)
   \<and> \<not> MemoryLimit (ex_c\<lparr>CopyOut := [''dir'']\<rparr>) < 100"
proof -
  have h2: "''dir'' \<in> set (CopyOut (ex_c\<lparr>CopyOut := [''dir'']\<rparr>))" by simp
  have h3: "m_Open ex_m ''dir'' = Inr ex_dir" by (simp add: ex_m_def ex_Open_def)
  have h4: "Stat_err ex_dir = None" by (simp add: ex_dir_def)
  have h5: "Stat_Mode ex_dir AND os_ModeType \<noteq> 0"
    by (simp add: ex_dir_type os_ModeDir_value)
  note T = non_regular_copy_out [OF ex_run_dir h2 h3 h4 h5]
  have t: "collect_tasks ex_m (ex_c\<lparr>CopyOut := [''dir'']\<rparr>) []
             = [Task_err (Plain_error ''File(dir) is not a regular file 2147483648'')]"
    using ex_dir_task by (simp add: collect_tasks_def ex_c_def)
  have h6: "rt_Error (m_Execve ex_m) = []" by (simp add: ex_m_def)
  have h7: "cg_CpuacctUsage ex_cg = Inr 1000" "cg_MemoryMaxUsageInBytes ex_cg = Inr 100"
    by (simp_all add: ex_cg_def)
  have h8: "\<not> Waiter (ex_c\<lparr>CopyOut := [''dir'']\<rparr>)" by (simp add: ex_c_def)
  have h9: "\<not> MemoryLimit (ex_c\<lparr>CopyOut := [''dir'']\<rparr>) < 100" by (simp add: ex_c_def)
  from T have c: "copyOut_task ex_m (ex_c\<lparr>CopyOut := [''dir'']\<rparr>) ''dir''
       = Task_err (Plain_error (not_regular_msg ''dir'' (Stat_Mode ex_dir AND os_ModeType)))"
    by (rule conjunct1)
  show ?thesis
    by (intro conjI) (rule ex_run_dir h2 h3 h4 h5 c t h6 h7 h8 h9)+
qed

section \<open>Copy-out size\<close>

lemma copyOut_task_exceeded:
  assumes "m_Open m n = Inr cf" and "0 < CopyOutMax c"
    and "uint (CopyOutMax c) < sint (Stat_Size cf)"
  shows "(\<exists>e. copyOut_task m c n = Task_err e)
       \<and> (Stat_err cf = None \<longrightarrow> Stat_Mode cf AND os_ModeType = 0 \<longrightarrow>
            copyOut_task m c n
              = Task_err (Plain_error (size_exceeded_msg n (Stat_Size cf) (CopyOutMax c))))"
proof -
  have "sint (CopyOutMax c) \<le> uint (CopyOutMax c)" by (rule sint_le_uint)
  with assms(3) have "sint (CopyOutMax c) < sint (Stat_Size cf)" by simp
  with assms(1,2) show ?thesis
    by (auto simp: copyOut_task_def Let_def split: option.splits)
qed

lemma copyOutAndCollect_total:
  "copyOutAndCollect m c ptc ks = Panicked \<and> Task_panic \<in> set (collect_tasks m c ptc)
   \<or> (\<exists>files err. copyOutAndCollect m c ptc ks = Returned (files, err))"
  by (simp add: copyOutAndCollect_def Let_def set_pick_order)

text \<open>
  C10. For every copy-out file, the bytes delivered are the first bytes of the file, at most
  as many as the size \<open>Stat\<close> reported, whatever the file holds when it is read. When a
  positive \<open>CopyOutMax\<close> is set and the reported size exceeds it, the file's task fails with
  an error; the collection then returns an error (whenever no task panics), and nothing
  is delivered for the file.
\<close>

theorem copy_out_size:
  assumes "m_Open m n = Inr cf"
  shows "(\<forall>n' bs. copyOut_task m c n = Task_put n' bs \<longrightarrow>
            n' = n \<and> int (length bs) \<le> sint (Stat_Size cf)
            \<and> bs = take (nat (sint (Stat_Size cf))) (rd_bytes (contents cf)))
       \<and> (\<forall>ks files err bs. copyOutAndCollect m c ptc ks = Returned (files, err) \<longrightarrow>
            files n = Some bs \<longrightarrow>
              (\<exists>p \<in> set ptc. n = ptc_name p \<and> bs = buff_Buffer (ptc_buff p))
              \<or> int (length bs) \<le> sint (Stat_Size cf))
       \<and> (0 < CopyOutMax c \<longrightarrow> uint (CopyOutMax c) < sint (Stat_Size cf) \<longrightarrow>
            (\<exists>e. copyOut_task m c n = Task_err e)
            \<and> (Stat_err cf = None \<longrightarrow> Stat_Mode cf AND os_ModeType = 0 \<longrightarrow>
                 copyOut_task m c n
                   = Task_err (Plain_error (size_exceeded_msg n (Stat_Size cf) (CopyOutMax c))))
            \<and> (n \<in> set (CopyOut c) \<longrightarrow>
                 (\<forall>ks. (Task_panic \<notin> set (collect_tasks m c ptc) \<longrightarrow>
                          (\<exists>files e. copyOutAndCollect m c ptc ks = Returned (files, Some e)))
                      \<and> (\<forall>files err bs. copyOutAndCollect m c ptc ks = Returned (files, err) \<longrightarrow>
                            err \<noteq> None
                            \<and> (files n = Some bs \<longrightarrow>
                                 (\<exists>p \<in> set ptc. n = ptc_name p
                                    \<and> bs = buff_Buffer (ptc_buff p)))))))"
proof -
  have put: "n' = n \<and> int (length bs) \<le> sint (Stat_Size cf)
            \<and> bs = take (nat (sint (Stat_Size cf))) (rd_bytes (contents cf))"
    if "copyOut_task m c n = Task_put n' bs" for n' bs
  proof -
    from copyOut_task_put [OF that] assms
    have "n' = n" and nn: "0 \<le> sint (Stat_Size cf)"
      and bs: "bs = take (nat (sint (Stat_Size cf))) (rd_bytes (contents cf))"
      by auto
    from bs have "length bs \<le> nat (sint (Stat_Size cf))" by simp
    with nn have "int (length bs) \<le> sint (Stat_Size cf)" by linarith
    with \<open>n' = n\<close> bs show ?thesis by simp
  qed
  have from_tasks: "(\<exists>p \<in> set ptc. n = ptc_name p \<and> bs = buff_Buffer (ptc_buff p))
              \<or> copyOut_task m c n = Task_put n bs"
    if "copyOutAndCollect m c ptc ks = Returned (files, err)" "files n = Some bs"
    for ks files err bs
  proof -
    from copyOutAndCollect_Returned [OF that(1)] that(2)
    have "Task_put n bs \<in> set (collect_tasks m c ptc)" by blast
    from collect_tasks_put [OF this] show ?thesis
      using collect_task_put by blast
  qed
  have map_bound: "(\<exists>p \<in> set ptc. n = ptc_name p \<and> bs = buff_Buffer (ptc_buff p))
              \<or> int (length bs) \<le> sint (Stat_Size cf)"
    if "copyOutAndCollect m c ptc ks = Returned (files, err)" "files n = Some bs"
    for ks files err bs
    using from_tasks [OF that] put by blast
  have exceeded: "(\<exists>e. copyOut_task m c n = Task_err e)
            \<and> (Stat_err cf = None \<longrightarrow> Stat_Mode cf AND os_ModeType = 0 \<longrightarrow>
                 copyOut_task m c n
                   = Task_err (Plain_error (size_exceeded_msg n (Stat_Size cf) (CopyOutMax c))))
            \<and> (n \<in> set (CopyOut c) \<longrightarrow>
                 (\<forall>ks. (Task_panic \<notin> set (collect_tasks m c ptc) \<longrightarrow>
                          (\<exists>files e. copyOutAndCollect m c ptc ks = Returned (files, Some e)))
                      \<and> (\<forall>files err bs. copyOutAndCollect m c ptc ks = Returned (files, err) \<longrightarrow>
                            err \<noteq> None
                            \<and> (files n = Some bs \<longrightarrow>
                                 (\<exists>p \<in> set ptc. n = ptc_name p
                                    \<and> bs = buff_Buffer (ptc_buff p))))))"
    if pos: "0 < CopyOutMax c" and big: "uint (CopyOutMax c) < sint (Stat_Size cf)"
  proof -
    note E = copyOut_task_exceeded [OF assms pos big]
    then obtain e where e: "copyOut_task m c n = Task_err e" by blast
    have coll: "err \<noteq> None \<and> (files n = Some bs \<longrightarrow>
                 (\<exists>p \<in> set ptc. n = ptc_name p \<and> bs = buff_Buffer (ptc_buff p)))"
      if mem: "n \<in> set (CopyOut c)"
        and ret: "copyOutAndCollect m c ptc ks = Returned (files, err)"
      for ks files err bs
    proof -
      from mem e have "Task_err e \<in> set (collect_tasks m c ptc)"
        by (force simp: collect_tasks_def)
      with copyOutAndCollect_Returned [OF ret] have "err \<noteq> None" by force
      moreover have "\<exists>p \<in> set ptc. n = ptc_name p \<and> bs = buff_Buffer (ptc_buff p)"
        if "files n = Some bs"
        using from_tasks [OF ret that] e by simp
      ultimately show ?thesis by blast
    qed
    have ret: "\<exists>files e'. copyOutAndCollect m c ptc ks = Returned (files, Some e')"
      if mem: "n \<in> set (CopyOut c)" and np: "Task_panic \<notin> set (collect_tasks m c ptc)"
      for ks
    proof -
      from copyOutAndCollect_total [of m c ptc ks] np
      obtain files err where r: "copyOutAndCollect m c ptc ks = Returned (files, err)"
        by blast
      from coll [OF mem r] obtain e' where "err = Some e'" by blast
      with r show ?thesis by blast
    qed
    from E coll ret show ?thesis by blast
  qed
  from put map_bound exceeded show ?thesis by blast
qed


lemma ex_out_task:
  "copyOut_task ex_m ex_c ''out'' = Task_put ''out'' [1, 2, 3]"
proof -
  have o: "m_Open ex_m ''out'' = Inr ex_out" by (simp add: ex_m_def ex_Open_def)
  have m: "Stat_Mode ex_out AND os_ModeType = 0"
    by (simp add: ex_out_def os_ModeType_value)
  show ?thesis
    by (simp add: copyOut_task_def o m Let_def)
      (simp add: ex_out_def ex_c_def LimitReader_def)
qed

theorem copy_out_size_witness:
  "m_Open ex_m ''out'' = Inr ex_out
   \<and> copyOut_task ex_m ex_c ''out'' = Task_put ''out'' [1, 2, 3]
   \<and> int (length [1 :: byte, 2, 3]) \<le> sint (Stat_Size ex_out)
   \<and> [1, 2, 3] = take (nat (sint (Stat_Size ex_out))) (rd_bytes (contents ex_out))
   \<and> m_Open ex_m ''big'' = Inr ex_big
   \<and> 0 < CopyOutMax (ex_c\<lparr>CopyOut := [''big''], CopyOutMax := 4\<rparr>)
   \<and> uint (CopyOutMax (ex_c\<lparr>CopyOut := [''big''], CopyOutMax := 4\<rparr>)) < sint (Stat_Size ex_big)
   \<and> Stat_err ex_big = None
   \<and> Stat_Mode ex_big AND os_ModeType = 0
   \<and> ''big'' \<in> set (CopyOut (ex_c\<lparr>CopyOut := [''big''], CopyOutMax := 4\<rparr>))
   \<and> copyOut_task ex_m (ex_c\<lparr>CopyOut := [''big''], CopyOutMax := 4\<rparr>) ''big''
       = Task_err (Plain_error (size_exceeded_msg ''big'' (Stat_Size ex_big)
           (CopyOutMax (ex_c\<lparr>CopyOut := [''big''], CopyOutMax := 4\<rparr>))))
   \<and> Task_panic \<notin> set (collect_tasks ex_m (ex_c\<lparr>CopyOut := [''big''], CopyOutMax := 4\<rparr>) [])
   \<and> (\<exists>files e. copyOutAndCollect ex_m (ex_c\<lparr>CopyOut := [''big''], CopyOutMax := 4\<rparr>) [] []
          = Returned (files, Some e))"
proof -
  let ?c = "ex_c\<lparr>CopyOut := [''big''], CopyOutMax := 4\<rparr>"
  have o1: "m_Open ex_m ''out'' = Inr ex_out" by (simp add: ex_m_def ex_Open_def)
  have o2: "m_Open ex_m ''big'' = Inr ex_big" by (simp add: ex_m_def ex_Open_def)
  note T1 = copy_out_size [OF o1, of ex_c "[]"]
  note T2 = copy_out_size [OF o2, of ?c "[]"]
  from T1 ex_out_task
  have a: "int (length [1 :: byte, 2, 3]) \<le> sint (Stat_Size ex_out)
           \<and> [1, 2, 3] = take (nat (sint (Stat_Size ex_out))) (rd_bytes (contents ex_out))"
    by blast
  have h1: "0 < CopyOutMax ?c" by simp
  have h2: "uint (CopyOutMax ?c) < sint (Stat_Size ex_big)" by (simp add: ex_big_def)
  have h3: "Stat_err ex_big = None" by (simp add: ex_big_def)
  have h4: "Stat_Mode ex_big AND os_ModeType = 0" by (simp add: ex_big_def os_ModeType_value)
  have h5: "''big'' \<in> set (CopyOut ?c)" by simp
  from T2 h1 h2 h3 h4
  have b: "copyOut_task ex_m ?c ''big''
       = Task_err (Plain_error (size_exceeded_msg ''big'' (Stat_Size ex_big) (CopyOutMax ?c)))"
    by blast
  have h6: "Task_panic \<notin> set (collect_tasks ex_m ?c [])"
  proof -
    have "collect_tasks ex_m ?c [] = [copyOut_task ex_m ?c ''big'']"
      by (simp add: collect_tasks_def ex_c_def)
    then show ?thesis by (simp only: b) simp
  qed
  from T2 h1 h2 h5 h6
  have c: "\<exists>files e. copyOutAndCollect ex_m ?c [] [] = Returned (files, Some e)"
    by blast
  show ?thesis
    by (intro conjI) (rule o1 o2 ex_out_task a [THEN conjunct1] a [THEN conjunct2]
        h1 h2 h3 h4 h5 b h6 c)+
qed

section \<open>Copy-in\<close>

lemma copyIn_openCmd_props:
  "map Path (copyIn_openCmd ci) = map fst ci
   \<and> (\<forall>cmd \<in> set (copyIn_openCmd ci). Flag cmd = {O_CREATE, O_RDWR, O_TRUNC} \<and> Perm cmd = 511)"
  by (induction ci) (auto simp: copyIn_openCmd_def)

lemma copyIn_err_cases:
  "ci_err (copyIn m ks ci) =
     (case m_Open_batch m of
        Some e \<Rightarrow> Some e
      | None \<Rightarrow> first_error (pick_order ks
                  (map (\<lambda>(n, f). snd (copyIn_task (m_Open_writer m n) f)) ci)))"
proof (cases "m_Open_batch m")
  case None
  have h: "map (\<lambda>(n, r). snd r) (map (\<lambda>(n, f). (n, copyIn_task (m_Open_writer m n) f)) ci)
          = map (\<lambda>(n, f). snd (copyIn_task (m_Open_writer m n) f)) ci"
    by (induction ci) auto
  have "ci_err (copyIn m ks ci) = first_error (pick_order ks
          (map (\<lambda>(n, r). snd r) (map (\<lambda>(n, f). (n, copyIn_task (m_Open_writer m n) f)) ci)))"
    by (simp add: copyIn_def Let_def None del: map_map)
  then show ?thesis by (simp only: h None option.case)
next
  case (Some e)
  then show ?thesis by (simp add: copyIn_def)
qed

lemma copyIn_written:
  "m_Open_batch m = None \<Longrightarrow>
     ci_written (copyIn m ks ci) = map (\<lambda>(n, f). (n, fst (copyIn_task (m_Open_writer m n) f))) ci"
  by (induction ci) (auto simp: copyIn_def Let_def)

lemma copyIn_task_full:
  "file_Open f = Inr src \<Longrightarrow> wr_fail w = None \<Longrightarrow> fst (copyIn_task w f) = rd_bytes src"
  by (simp add: copyIn_task_def io_Copy_def)

text \<open>
  C6, as stated, fails: when the first of two sources cannot be opened, the second is still
  copied in full, and \<open>runOne\<close> returns the error without publishing any result, so no
  status FileError arises.
\<close>

theorem copy_in_counterexample:
  "ci_err (copyIn ex_m [] ex_copyIn) = Some (Plain_error ''no such file'')
   \<and> ci_written (copyIn ex_m [] ex_copyIn) = [(''/w/a'', []), (''/w/b'', [0, 1, 2])]
   \<and> snd (runOne ex_sname ex_m ex_cg (ex_c\<lparr>CopyIn := ex_copyIn\<rparr>) [] [] [])
       = Failed (Plain_error ''no such file'')
   \<and> published (runOne ex_sname ex_m ex_cg (ex_c\<lparr>CopyIn := ex_copyIn\<rparr>) [] [] []) = None"
proof -
  have e: "ci_err (copyIn ex_m [] ex_copyIn) = Some (Plain_error ''no such file'')"
    by (simp add: copyIn_def ex_m_def ex_copyIn_def copyIn_task_def ex_missing_def ex_src_def
        io_Copy_def ex_writer_def Let_def)
  have w: "ci_written (copyIn ex_m [] ex_copyIn) = [(''/w/a'', []), (''/w/b'', [0, 1, 2])]"
    by (simp add: copyIn_def ex_m_def ex_copyIn_def copyIn_task_def ex_missing_def ex_src_def
        io_Copy_def ex_writer_def Let_def)
  have r: "snd (runOne ex_sname ex_m ex_cg (ex_c\<lparr>CopyIn := ex_copyIn\<rparr>) [] [] [])
       = Failed (Plain_error ''no such file'')"
    using e by (simp add: runOne_def Let_def ex_cg_def ex_copyIn_def)
  from e w r show ?thesis by (simp add: published_def)
qed

text \<open>
  C6, amended. \<open>copyIn\<close> opens every destination path with create, read-write and truncate
  (mode 0777). Each source is copied by its own goroutine, and a source that opens and
  whose destination accepts the bytes is copied in full whether or not another copy
  fails. \<open>copyIn\<close> returns no error exactly when the batch open and every copy succeed,
  and otherwise the error of the batch open or of one of the copies (the first written to
  the error channel). On a copy-in error \<open>runOne\<close> returns that error and publishes no
  result.
\<close>

theorem copy_in:
  "map Path (ci_openCmd (copyIn m ks ci)) = map fst ci
   \<and> (\<forall>cmd \<in> set (ci_openCmd (copyIn m ks ci)).
         Flag cmd = {O_CREATE, O_RDWR, O_TRUNC} \<and> Perm cmd = 511)
   \<and> (m_Open_batch m = None \<longrightarrow>
        (\<forall>n f src. (n, f) \<in> set ci \<longrightarrow> file_Open f = Inr src
           \<longrightarrow> wr_fail (m_Open_writer m n) = None
           \<longrightarrow> (n, rd_bytes src) \<in> set (ci_written (copyIn m ks ci))))
   \<and> ((ci_err (copyIn m ks ci) = None) =
        (m_Open_batch m = None
         \<and> (\<forall>(n, f) \<in> set ci. snd (copyIn_task (m_Open_writer m n) f) = None)))
   \<and> (\<forall>e. ci_err (copyIn m ks ci) = Some e \<longrightarrow>
         m_Open_batch m = Some e
         \<or> (\<exists>(n, f) \<in> set ci. snd (copyIn_task (m_Open_writer m n) f) = Some e))
   \<and> (\<forall>e. cg_SetMemoryLimitInBytes cg = None \<longrightarrow> cg_SetPidsMax cg = None
         \<longrightarrow> CopyIn c \<noteq> [] \<longrightarrow> ci_err (copyIn m ks (CopyIn c)) = Some e
         \<longrightarrow> snd (runOne sname m cg c ptc ks ks_out) = Failed e
             \<and> published (runOne sname m cg c ptc ks ks_out) = None)"
proof -
  have oc: "ci_openCmd (copyIn m ks ci) = copyIn_openCmd ci"
    by (simp add: copyIn_def Let_def split: option.splits)
  have 1: "map Path (ci_openCmd (copyIn m ks ci)) = map fst ci
   \<and> (\<forall>cmd \<in> set (ci_openCmd (copyIn m ks ci)).
         Flag cmd = {O_CREATE, O_RDWR, O_TRUNC} \<and> Perm cmd = 511)"
    unfolding oc by (rule copyIn_openCmd_props)
  have 2: "(n, rd_bytes src) \<in> set (ci_written (copyIn m ks ci))"
    if "m_Open_batch m = None" "(n, f) \<in> set ci" "file_Open f = Inr src"
      "wr_fail (m_Open_writer m n) = None" for n f src
  proof -
    have "(n, fst (copyIn_task (m_Open_writer m n) f)) \<in> set (ci_written (copyIn m ks ci))"
      unfolding copyIn_written [OF that(1)] using that(2) by force
    with copyIn_task_full [OF that(3,4)] show ?thesis by simp
  qed
  let ?errs = "map (\<lambda>(n, f). snd (copyIn_task (m_Open_writer m n) f)) ci"
  have se: "set (pick_order ks ?errs) = set ?errs" by (rule set_pick_order)
  have 3: "(ci_err (copyIn m ks ci) = None) =
        (m_Open_batch m = None
         \<and> (\<forall>(n, f) \<in> set ci. snd (copyIn_task (m_Open_writer m n) f) = None))"
    unfolding copyIn_err_cases
    by (cases "m_Open_batch m") (auto simp: first_error_None se)
  have 4: "m_Open_batch m = Some e
         \<or> (\<exists>(n, f) \<in> set ci. snd (copyIn_task (m_Open_writer m n) f) = Some e)"
    if "ci_err (copyIn m ks ci) = Some e" for e
  proof (cases "m_Open_batch m")
    case None
    with that have "first_error (pick_order ks ?errs) = Some e"
      by (simp add: copyIn_err_cases)
    from first_error_Some [OF this] have "Some e \<in> set ?errs" unfolding se .
    then show ?thesis by force
  next
    case (Some a)
    with that show ?thesis by (simp add: copyIn_err_cases)
  qed
  have 5: "snd (runOne sname m cg c ptc ks ks_out) = Failed e
             \<and> published (runOne sname m cg c ptc ks ks_out) = None"
    if "cg_SetMemoryLimitInBytes cg = None" "cg_SetPidsMax cg = None"
      "CopyIn c \<noteq> []" "ci_err (copyIn m ks (CopyIn c)) = Some e" for e
    using that by (simp add: runOne_def Let_def published_def)
  from 1 2 3 4 5 show ?thesis by blast
qed


theorem copy_in_witness:
  "m_Open_batch ex_m = None
   \<and> (''/w/b'', ex_src) \<in> set ex_copyIn
   \<and> file_Open ex_src = Inr \<lparr>rd_bytes = [0, 1, 2], rd_err = None\<rparr>
   \<and> wr_fail (m_Open_writer ex_m ''/w/b'') = None
   \<and> (''/w/b'', [0, 1, 2]) \<in> set (ci_written (copyIn ex_m [] ex_copyIn))
   \<and> map Path (ci_openCmd (copyIn ex_m [] ex_copyIn)) = [''/w/a'', ''/w/b'']
   \<and> cg_SetMemoryLimitInBytes ex_cg = None
   \<and> cg_SetPidsMax ex_cg = None
   \<and> CopyIn (ex_c\<lparr>CopyIn := ex_copyIn\<rparr>) \<noteq> []
   \<and> ci_err (copyIn ex_m [] (CopyIn (ex_c\<lparr>CopyIn := ex_copyIn\<rparr>)))
       = Some (Plain_error ''no such file'')
   \<and> snd (runOne ex_sname ex_m ex_cg (ex_c\<lparr>CopyIn := ex_copyIn\<rparr>) [] [] [])
       = Failed (Plain_error ''no such file'')"
proof -
  let ?c = "ex_c\<lparr>CopyIn := ex_copyIn\<rparr>"
  note T = copy_in [of ex_m "[]" ex_copyIn ex_cg ?c ex_sname "[]" "[]"]
  have h1: "m_Open_batch ex_m = None" by (simp add: ex_m_def)
  have h2: "(''/w/b'', ex_src) \<in> set ex_copyIn" by (simp add: ex_copyIn_def)
  have h3: "file_Open ex_src = Inr \<lparr>rd_bytes = [0, 1, 2], rd_err = None\<rparr>"
    by (simp add: ex_src_def)
  have h4: "wr_fail (m_Open_writer ex_m ''/w/b'') = None"
    by (simp add: ex_m_def ex_writer_def)
  from T h1 h2 h3 h4
  have a: "(''/w/b'', rd_bytes \<lparr>rd_bytes = [0, 1, 2], rd_err = None\<rparr>)
             \<in> set (ci_written (copyIn ex_m [] ex_copyIn))"
    by blast
  then have a': "(''/w/b'', [0, 1, 2]) \<in> set (ci_written (copyIn ex_m [] ex_copyIn))"
    by simp
  from T have "map Path (ci_openCmd (copyIn ex_m [] ex_copyIn)) = map fst ex_copyIn"
    by (rule conjunct1)
  then have b: "map Path (ci_openCmd (copyIn ex_m [] ex_copyIn)) = [''/w/a'', ''/w/b'']"
    by (simp add: ex_copyIn_def)
  have h5: "cg_SetMemoryLimitInBytes ex_cg = None" "cg_SetPidsMax ex_cg = None"
    by (simp_all add: ex_cg_def)
  have h6: "CopyIn ?c \<noteq> []" by (simp add: ex_copyIn_def)
  have h7: "ci_err (copyIn ex_m [] (CopyIn ?c)) = Some (Plain_error ''no such file'')"
    by (simp add: copyIn_def ex_m_def ex_copyIn_def copyIn_task_def ex_missing_def ex_src_def
        io_Copy_def ex_writer_def Let_def)
  from T h5 h6 h7
  have c: "snd (runOne ex_sname ex_m ex_cg ?c [] [] []) = Failed (Plain_error ''no such file'')"
    by blast
  show ?thesis
    by (intro conjI) (rule h1 h2 h3 h4 a' b h5 h6 h7 c)+
qed

section \<open>Release to a pool\<close>

text \<open>
  C8, as stated, fails: a controller whose reset fails is put back into the pool, neither
  reset nor destroyed, and the next \<open>Get\<close> returns it; the environment pool does the same.
\<close>

theorem pool_put_counterexample:
  "snd (wCgroup_Reset ex_bad) = Some (Plain_error ''write failed'')
   \<and> wCgroupPool_Get (Inl (Plain_error ''build failed'')) (wCgroupPool_Put [] ex_bad)
       = (Inr ex_bad, [])
   \<and> \<not> destroyed ex_bad
   \<and> cpuacct_usage ex_bad = 7
   \<and> snd (ex_Reset 1) = Some (Plain_error ''reset failed'')
   \<and> pool_Get (Inl (Plain_error ''build failed'')) (pool_Put ex_Reset [] 1) = (Inr 1, [])"
  by (simp add: wCgroup_Reset_def ex_bad_def ex_wCgroup_def wCgroupPool_Get_def
      wCgroupPool_Put_def ex_Reset_def pool_Get_def pool_Put_def)

text \<open>
  C8, amended. \<open>Put\<close> calls \<open>Reset\<close> on the item and then appends it to the pool whether or
  not the reset succeeded: the next \<open>Get\<close> returns the item as \<open>Reset\<close> left it. The item is
  never destroyed by \<open>Put\<close>; its counters are zero when the reset succeeded, and a failed
  reset leaves the memory counter as it was.
\<close>

theorem pool_put:
  "wCgroupPool_Get build (wCgroupPool_Put cgs c) = (Inr (fst (wCgroup_Reset c)), cgs)
   \<and> destroyed (fst (wCgroup_Reset c)) = destroyed c
   \<and> (snd (wCgroup_Reset c) = None \<longrightarrow>
        cpuacct_usage (fst (wCgroup_Reset c)) = 0
        \<and> memory_max_usage (fst (wCgroup_Reset c)) = 0)
   \<and> (\<forall>err. snd (wCgroup_Reset c) = Some err \<longrightarrow>
        memory_max_usage (fst (wCgroup_Reset c)) = memory_max_usage c)
   \<and> pool_Get build_env (pool_Put Reset env e) = (Inr (fst (Reset e)), env)"
proof -
  have g: "wCgroupPool_Get build (cgs @ [x]) = (Inr x, cgs)" for x
    by (simp add: wCgroupPool_Get_def)
  have p: "pool_Get build_env (env @ [y]) = (Inr y, env)" for y
    by (simp add: pool_Get_def)
  have r: "destroyed (fst (wCgroup_Reset c)) = destroyed c
   \<and> (snd (wCgroup_Reset c) = None \<longrightarrow>
        cpuacct_usage (fst (wCgroup_Reset c)) = 0
        \<and> memory_max_usage (fst (wCgroup_Reset c)) = 0)
   \<and> (\<forall>err. snd (wCgroup_Reset c) = Some err \<longrightarrow>
        memory_max_usage (fst (wCgroup_Reset c)) = memory_max_usage c)"
    by (auto simp: wCgroup_Reset_def Let_def split: option.splits)
  from g p r show ?thesis
    by (simp add: wCgroupPool_Put_def pool_Put_def)
qed

theorem pool_put_witness:
  "snd (wCgroup_Reset ex_wCgroup) = None
   \<and> wCgroupPool_Get (Inl (Plain_error ''build failed'')) (wCgroupPool_Put [] ex_wCgroup)
       = (Inr (ex_wCgroup\<lparr>cpuacct_usage := 0, memory_max_usage := 0\<rparr>), [])
   \<and> cpuacct_usage (fst (wCgroup_Reset ex_wCgroup)) = 0
   \<and> memory_max_usage (fst (wCgroup_Reset ex_wCgroup)) = 0
   \<and> snd (wCgroup_Reset ex_bad) = Some (Plain_error ''write failed'')
   \<and> memory_max_usage (fst (wCgroup_Reset ex_bad)) = 9"
proof -
  note T = pool_put [where build = "Inl (Plain_error ''build failed'')" and cgs = "[]"
      and c = ex_wCgroup and build_env = "Inl (Plain_error ''build failed'')"
      and Reset = ex_Reset and env = "[]" and e = 0]
  note B = pool_put [where build = "Inl (Plain_error ''build failed'')" and cgs = "[]"
      and c = ex_bad and build_env = "Inl (Plain_error ''build failed'')"
      and Reset = ex_Reset and env = "[]" and e = 0]
  have h: "snd (wCgroup_Reset ex_wCgroup) = None"
    by (simp add: wCgroup_Reset_def ex_wCgroup_def)
  have v: "fst (wCgroup_Reset ex_wCgroup) = ex_wCgroup\<lparr>cpuacct_usage := 0, memory_max_usage := 0\<rparr>"
    by (simp add: wCgroup_Reset_def ex_wCgroup_def)
  from T have a: "wCgroupPool_Get (Inl (Plain_error ''build failed'')) (wCgroupPool_Put [] ex_wCgroup)
       = (Inr (fst (wCgroup_Reset ex_wCgroup)), [])" by (rule conjunct1)
  from T h have z: "cpuacct_usage (fst (wCgroup_Reset ex_wCgroup)) = 0"
    "memory_max_usage (fst (wCgroup_Reset ex_wCgroup)) = 0" by simp_all
  have hb: "snd (wCgroup_Reset ex_bad) = Some (Plain_error ''write failed'')"
    by (simp add: wCgroup_Reset_def ex_bad_def ex_wCgroup_def)
  from B hb have "memory_max_usage (fst (wCgroup_Reset ex_bad)) = memory_max_usage ex_bad"
    by blast
  then have m: "memory_max_usage (fst (wCgroup_Reset ex_bad)) = 9"
    by (simp add: ex_bad_def ex_wCgroup_def)
  show ?thesis
    by (intro conjI) (rule h a [unfolded v] z hb m)+
qed

section \<open>Token authentication of the service\<close>








lemma run_handlers_pass: "run_handlers (pass_through # hs) c = run_handlers hs c"
  by (simp add: pass_through_def)











end
